theory Spec2Isabelle
  imports Main "HOL-Library.Word"
begin

section \<open>JavaScript strings\<close>

text \<open>
  A JavaScript string is a sequence of UTF-16 code units; \<open>startsWith\<close>, \<open>indexOf\<close>,
  \<open>includes\<close>, \<open>substring\<close> and \<open>trim\<close> all work on code units. The string literals of
  the source are written with \<open>lit\<close> for their ASCII stretches and with the numeric code
  units of the Vietnamese letters in between.
\<close>

type_synonym code_unit = "16 word"
type_synonym js_string = "code_unit list"

definition lit :: "string \<Rightarrow> js_string" where
  "lit s = map (\<lambda>c. of_nat (of_char c)) s"

text \<open>\<open>s.startsWith(p)\<close>\<close>

definition startsWith :: "js_string \<Rightarrow> js_string \<Rightarrow> bool" where
  "startsWith s p = (take (length p) s = p)"

text \<open>\<open>s.indexOf(n)\<close>: the first position at which \<open>n\<close> occurs in \<open>s\<close>, or \<open>-1\<close>.\<close>

fun indexOfFrom :: "js_string \<Rightarrow> js_string \<Rightarrow> int \<Rightarrow> int" where
  "indexOfFrom [] n i = (if n = [] then i else - 1)"
| "indexOfFrom (x # xs) n i =
     (if startsWith (x # xs) n then i else indexOfFrom xs n (i + 1))"

definition indexOf :: "js_string \<Rightarrow> js_string \<Rightarrow> int" where
  "indexOf s n = indexOfFrom s n 0"

text \<open>\<open>s.includes(n)\<close>\<close>

fun js_includes :: "js_string \<Rightarrow> js_string \<Rightarrow> bool" where
  "js_includes [] n = (n = [])"
| "js_includes (x # xs) n = (startsWith (x # xs) n \<or> js_includes xs n)"

text \<open>\<open>s.substring(start)\<close>: a start below 0 counts as 0, one beyond the end as the end.\<close>

definition substring :: "js_string \<Rightarrow> int \<Rightarrow> js_string" where
  "substring s start = drop (nat start) s"

text \<open>White space and line terminators, the code units \<open>trim\<close> removes at both ends.\<close>

definition is_js_space :: "code_unit \<Rightarrow> bool" where
  "is_js_space c \<longleftrightarrow>
     c \<in> {0x9, 0xA, 0xB, 0xC, 0xD, 0x20, 0xA0, 0x1680, 0x2028, 0x2029, 0x202F, 0x205F,
          0x3000, 0xFEFF}
     \<or> (0x2000 \<le> c \<and> c \<le> 0x200A)"

definition trim :: "js_string \<Rightarrow> js_string" where
  "trim s = rev (dropWhile is_js_space (rev (dropWhile is_js_space s)))"

text \<open>A string is truthy when it is not empty; \<open>null\<close> and \<open>undefined\<close> are falsy.\<close>

definition truthy :: "js_string option \<Rightarrow> bool" where
  "truthy v = (case v of None \<Rightarrow> False | Some s \<Rightarrow> s \<noteq> [])"

section \<open>utils: stripDataPrefix\<close>

definition stripDataPrefix :: "js_string \<Rightarrow> js_string" where
  "stripDataPrefix base64String =
     (if startsWith base64String (lit ''data:'') then
        (let commaIndex = indexOf base64String (lit '','') in
         if commaIndex \<noteq> - 1 then substring base64String (commaIndex + 1)
         else base64String)
      else base64String)"

section \<open>services/geminiService\<close>

subsection \<open>Request and response data\<close>

text \<open>An image handed to the service: \<open>{ base64: string; mimeType: string }\<close>.\<close>

record ImageRef =
  base64 :: js_string
  mimeType :: js_string

record GenerateImageParams =
  characterImages :: "ImageRef option list"
  backgroundImage :: "ImageRef option"
  useBackground :: bool
  prompt :: js_string

text \<open>
  A content part is \<open>{ text }\<close> or \<open>{ inlineData: { mimeType, data } }\<close>; \<open>InlineData\<close>
  takes the MIME type first and the payload second.
\<close>

datatype part = Text js_string | InlineData js_string js_string

text \<open>
  Modelled from the spec: the response type of the external SDK, which is not part of the
  repository. A response has an optional list of candidates, a candidate an optional
  content, a content an optional list of parts, and a part an optional inline-image field
  (MIME type and base64 payload).
\<close>

datatype content = Content (parts: "part list option")
datatype candidate = Candidate (content: "content option")
datatype response = Response (candidates: "candidate list option")

text \<open>
  A thrown value, as far as the handlers look at it: an instance of \<open>Error\<close> with its
  message, or any other value with what reading its \<open>message\<close> property gives
  (\<open>None\<close> for \<open>undefined\<close>). The values \<open>null\<close> and \<open>undefined\<close>, of which no property
  can be read, are not among the thrown values of the model.
\<close>

datatype js_thrown = JsError js_string | JsNonError "js_string option"

text \<open>
  The environment of a call: \<open>process.env.API_KEY\<close>, and \<open>window.aistudio\<close> with whether
  its \<open>openSelectKey\<close> is a function.
\<close>

datatype aistudio = Aistudio (openSelectKey_is_function: bool)

record host =
  API_KEY :: "js_string option"
  window_aistudio :: "aistudio option"

text \<open>
  What a handler does besides computing a value, in the order it does it: the request sent
  to the model, a call of the credential-reselection hook, and the state setters of the
  component. A call of the hook returns at once, and the service does not wait for what
  the host does then. Logging to the console is left out.
\<close>

datatype event =
    GenerateContent "part list"
  | OpenSelectKey
  | SetLoading bool
  | SetError "js_string option"
  | PrependGeneratedImages "js_string list"

text \<open>
  One call of the service: what it does before it waits for the model, what it does once
  the model has answered, and the value its promise settles with (\<open>Inl\<close> a rejection).
\<close>

record generation =
  issued :: "event list"
  settled :: "event list"
  outcome :: "js_thrown + js_string"

subsection \<open>Messages\<close>

definition RESOURCE_EXHAUSTED :: js_string where
  "RESOURCE_EXHAUSTED = lit ''RESOURCE_EXHAUSTED''"

definition ENTITY_NOT_FOUND :: js_string where
  "ENTITY_NOT_FOUND = lit ''Requested entity was not found.''"

definition msg_api_key_undefined :: js_string where
  "msg_api_key_undefined =
     lit ''API_KEY is not defined in environment va'' @ lit ''riables.''"

definition msg_no_image_data :: js_string where
  "msg_no_image_data =
     lit ''Could not generate image: No image data '' @ lit ''returned.''"

definition msg_quota_reselect :: js_string where
  "msg_quota_reselect =
     lit ''H'' @ [0x1EA1] @ lit ''n m'' @ [0x1EE9] @ lit ''c API '' @ [0x111, 0xE3]
     @ lit '' h'' @ [0x1EBF] @ lit ''t. Vui l'' @ [0xF2] @ lit ''ng ki'' @ [0x1EC3]
     @ lit ''m tra g'' @ [0xF3] @ lit ''i d'' @ [0x1ECB] @ lit ''ch v'' @ [0x1EE5]
     @ lit '' v'' @ [0xE0] @ lit '' chi ti'' @ [0x1EBF] @ lit ''t thanh to'' @ [0xE1]
     @ lit ''n c'' @ [0x1EE7] @ lit ''a b'' @ [0x1EA1] @ lit ''n, ho'' @ [0x1EB7]
     @ lit ''c th'' @ [0x1EED] @ lit '' ch'' @ [0x1ECD] @ lit ''n m'' @ [0x1ED9]
     @ lit ''t kh'' @ [0xF3] @ lit ''a API kh'' @ [0xE1] @ lit ''c. B'' @ [0x1EA1]
     @ lit ''n c'' @ [0xF3] @ lit '' th'' @ [0x1EC3] @ lit '' t'' @ [0xEC]
     @ lit ''m th'' @ [0xEA] @ lit ''m th'' @ [0xF4] @ lit ''ng tin t'' @ [0x1EA1]
     @ lit ''i: ai.google.dev/gemini-api/docs/rate-li'' @ lit ''mits''"

definition msg_quota_plain :: js_string where
  "msg_quota_plain =
     lit ''H'' @ [0x1EA1] @ lit ''n m'' @ [0x1EE9] @ lit ''c API '' @ [0x111, 0xE3]
     @ lit '' h'' @ [0x1EBF] @ lit ''t. Vui l'' @ [0xF2] @ lit ''ng ki'' @ [0x1EC3]
     @ lit ''m tra g'' @ [0xF3] @ lit ''i d'' @ [0x1ECB] @ lit ''ch v'' @ [0x1EE5]
     @ lit '' v'' @ [0xE0] @ lit '' chi ti'' @ [0x1EBF] @ lit ''t thanh to'' @ [0xE1]
     @ lit ''n c'' @ [0x1EE7] @ lit ''a b'' @ [0x1EA1] @ lit ''n. B'' @ [0x1EA1]
     @ lit ''n c'' @ [0xF3] @ lit '' th'' @ [0x1EC3] @ lit '' t'' @ [0xEC]
     @ lit ''m th'' @ [0xEA] @ lit ''m th'' @ [0xF4] @ lit ''ng tin t'' @ [0x1EA1]
     @ lit ''i: ai.google.dev/gemini-api/docs/rate-li'' @ lit ''mits''"

definition msg_invalid_key_reselect :: js_string where
  "msg_invalid_key_reselect =
     lit ''Kh'' @ [0xF3] @ lit ''a API kh'' @ [0xF4] @ lit ''ng h'' @ [0x1EE3]
     @ lit ''p l'' @ [0x1EC7] @ lit ''. Vui l'' @ [0xF2] @ lit ''ng th'' @ [0x1EED]
     @ lit '' l'' @ [0x1EA1] @ lit ''i sau khi ch'' @ [0x1ECD] @ lit ''n kh'' @ [0xF3]
     @ lit ''a.''"

definition msg_invalid_key_plain :: js_string where
  "msg_invalid_key_plain =
     lit ''Kh'' @ [0xF3] @ lit ''a API kh'' @ [0xF4] @ lit ''ng h'' @ [0x1EE3]
     @ lit ''p l'' @ [0x1EC7] @ lit ''. Vui l'' @ [0xF2] @ lit ''ng ki'' @ [0x1EC3]
     @ lit ''m tra kh'' @ [0xF3] @ lit ''a API c'' @ [0x1EE7] @ lit ''a b'' @ [0x1EA1]
     @ lit ''n.''"

subsection \<open>generateImageWithGemini\<close>

text \<open>\<open>parts.push(p)\<close>\<close>

definition push :: "part list \<Rightarrow> part \<Rightarrow> part list" where
  "push ps p = ps @ [p]"

text \<open>The body of the loop over \<open>params.characterImages\<close>.\<close>

definition push_character :: "part list \<Rightarrow> ImageRef option \<Rightarrow> part list" where
  "push_character ps charImage =
     (case charImage of
        None \<Rightarrow> ps
      | Some c \<Rightarrow>
          if truthy (Some (base64 c))
          then push ps (InlineData (mimeType c) (stripDataPrefix (base64 c)))
          else ps)"

text \<open>Lines 35 to 63: the parts of the request.\<close>

definition build_parts :: "GenerateImageParams \<Rightarrow> part list" where
  "build_parts params =
     (let ps = push [] (Text (prompt params));
          ps = (case backgroundImage params of
                  None \<Rightarrow> ps
                | Some bg \<Rightarrow>
                    if useBackground params \<and> truthy (Some (base64 bg))
                    then push ps (InlineData (mimeType bg) (stripDataPrefix (base64 bg)))
                    else ps)
      in foldl push_character ps (characterImages params))"

text \<open>\<open>xs?.[0]\<close>\<close>

definition first_of :: "'a list option \<Rightarrow> 'a option" where
  "first_of xs = (case xs of None \<Rightarrow> None | Some [] \<Rightarrow> None | Some (x # _) \<Rightarrow> Some x)"

definition inlineData :: "part \<Rightarrow> (js_string \<times> js_string) option" where
  "inlineData p = (case p of Text _ \<Rightarrow> None | InlineData m d \<Rightarrow> Some (m, d))"

text \<open>\<open>response.candidates?.[0]?.content?.parts?.[0]?.inlineData\<close>\<close>

definition generatedImagePart :: "response \<Rightarrow> (js_string \<times> js_string) option" where
  "generatedImagePart r =
     (case first_of (candidates r) of
        None \<Rightarrow> None
      | Some c \<Rightarrow>
          (case content c of
             None \<Rightarrow> None
           | Some ct \<Rightarrow>
               (case first_of (parts ct) of
                  None \<Rightarrow> None
                | Some p \<Rightarrow> inlineData p)))"

text \<open>The template \<open>data:${mimeType};base64,${data}\<close>\<close>

definition data_uri :: "js_string \<Rightarrow> js_string \<Rightarrow> js_string" where
  "data_uri m d = lit ''data:'' @ m @ lit '';base64,'' @ d"

text \<open>\<open>window.aistudio && typeof window.aistudio.openSelectKey === 'function'\<close>\<close>

definition can_select_key :: "host \<Rightarrow> bool" where
  "can_select_key h =
     (case window_aistudio h of None \<Rightarrow> False | Some a \<Rightarrow> openSelectKey_is_function a)"

text \<open>\<open>error instanceof Error && error.message.includes(needle)\<close>\<close>

definition error_includes :: "js_thrown \<Rightarrow> js_string \<Rightarrow> bool" where
  "error_includes e needle =
     (case e of JsError m \<Rightarrow> js_includes m needle | JsNonError _ \<Rightarrow> False)"

text \<open>
  The \<open>catch\<close> block, lines 82 to 112: the events it causes and the value it throws.
\<close>

definition classify :: "host \<Rightarrow> js_thrown \<Rightarrow> event list \<times> js_thrown" where
  "classify h error =
     (if error_includes error RESOURCE_EXHAUSTED then
        (if can_select_key h then ([OpenSelectKey], JsError msg_quota_reselect)
         else ([], JsError msg_quota_plain))
      else if error_includes error ENTITY_NOT_FOUND then
        (if can_select_key h then ([OpenSelectKey], JsError msg_invalid_key_reselect)
         else ([], JsError msg_invalid_key_plain))
      else ([], error))"

text \<open>
  The \<open>try\<close> block after the model has answered, lines 74 to 81: the data URI, or the
  error thrown inside the block.
\<close>

definition read_response :: "response \<Rightarrow> js_thrown + js_string" where
  "read_response r =
     (case generatedImagePart r of
        Some (m, d) \<Rightarrow> Inr (data_uri m d)
      | None \<Rightarrow> Inl (JsError msg_no_image_data))"

text \<open>
  The whole function. \<open>reply\<close> is what \<open>ai.models.generateContent\<close> does for this call: it
  rejects with a value (\<open>Inl\<close>) or resolves with a response (\<open>Inr\<close>).
\<close>

definition generateImageWithGemini ::
    "host \<Rightarrow> GenerateImageParams \<Rightarrow> js_thrown + response \<Rightarrow> generation" where
  "generateImageWithGemini h params reply =
     (if \<not> truthy (API_KEY h) then
        \<lparr>issued = [], settled = [], outcome = Inl (JsError msg_api_key_undefined)\<rparr>
      else
        (let ps = build_parts params;
             tried = (case reply of Inl error \<Rightarrow> Inl error | Inr r \<Rightarrow> read_response r)
         in case tried of
              Inr uri \<Rightarrow> \<lparr>issued = [GenerateContent ps], settled = [], outcome = Inr uri\<rparr>
            | Inl error \<Rightarrow>
                \<lparr>issued = [GenerateContent ps], settled = fst (classify h error),
                 outcome = Inl (snd (classify h error))\<rparr>))"

section \<open>The application component\<close>

subsection \<open>types\<close>

datatype AspectRatio = Ratio_1_1 | Ratio_4_3 | Ratio_3_4 | Ratio_16_9 | Ratio_9_16

text \<open>Of a \<open>File\<close> the component reads only its \<open>type\<close>, the MIME type.\<close>

datatype File = File (file_type: js_string)

text \<open>
  The fields \<open>id\<close>, \<open>file\<close>, \<open>base64\<close> and \<open>previewUrl\<close> of the interfaces carry a prefix
  here, since two records cannot share a field name.
\<close>

record CharacterImage =
  char_id :: js_string
  char_file :: "File option"
  char_base64 :: "js_string option"
  selected :: bool
  char_previewUrl :: "js_string option"

record BackgroundImage =
  bg_file :: "File option"
  bg_base64 :: "js_string option"
  bg_previewUrl :: "js_string option"
  bg_useBackground :: bool

record StoredImage =
  img_id :: js_string
  url :: js_string
  timestamp :: nat

subsection \<open>State\<close>

text \<open>The \<open>useState\<close> variables of \<open>App\<close> that the handlers below read or set.\<close>

record app_state =
  s_characterImages :: "CharacterImage list"
  s_backgroundImage :: BackgroundImage
  s_prompt :: js_string
  generatedImages :: "js_string list"
  loading :: bool
  error :: "js_string option"
  savedImages :: "StoredImage list"
  selectedAspectRatio :: AspectRatio

text \<open>
  Browser-local storage maps a key to a text. The one slot the component uses holds the
  JSON text of a list of stored images; the model keeps the list that text denotes.
\<close>

type_synonym local_storage = "js_string \<rightharpoonup> StoredImage list"

definition LOCAL_STORAGE_KEY :: js_string where
  "LOCAL_STORAGE_KEY = lit ''linhAnimationSavedImages''"

text \<open>The decimal numeral of a number, as a template literal prints an integer.\<close>

definition digit :: "nat \<Rightarrow> code_unit" where
  "digit d = of_nat (48 + d)"

function decimal :: "nat \<Rightarrow> js_string" where
  "decimal n = (if n < 10 then [digit n] else decimal (n div 10) @ [digit (n mod 10)])"
  by pat_completeness auto
termination
  by (relation "measure id") auto

declare decimal.simps [simp del]

text \<open>A template literal prints \<open>undefined\<close> for a value that is not there.\<close>

definition template :: "js_string option \<Rightarrow> js_string" where
  "template v = (case v of None \<Rightarrow> lit ''undefined'' | Some s \<Rightarrow> s)"

text \<open>The initial values of the state variables.\<close>

definition empty_character :: "nat \<Rightarrow> CharacterImage" where
  "empty_character i =
     \<lparr>char_id = lit ''char-'' @ decimal (i + 1), char_file = None, char_base64 = None,
      selected = False, char_previewUrl = None\<rparr>"

definition initial_state :: app_state where
  "initial_state =
     \<lparr>s_characterImages = map empty_character [0..<4],
      s_backgroundImage =
        \<lparr>bg_file = None, bg_base64 = None, bg_previewUrl = None, bg_useBackground = False\<rparr>,
      s_prompt = [],
      generatedImages = [],
      loading = False,
      error = None,
      savedImages = [],
      selectedAspectRatio = Ratio_1_1\<rparr>"

text \<open>The setters of the state, applied in the order in which a handler calls them.\<close>

fun apply_event :: "app_state \<Rightarrow> event \<Rightarrow> app_state" where
  "apply_event st (SetLoading b) = st\<lparr>loading := b\<rparr>"
| "apply_event st (SetError e) = st\<lparr>error := e\<rparr>"
| "apply_event st (PrependGeneratedImages results) =
     st\<lparr>generatedImages := results @ generatedImages st\<rparr>"
| "apply_event st (GenerateContent ps) = st"
| "apply_event st OpenSelectKey = st"

definition run_events :: "app_state \<Rightarrow> event list \<Rightarrow> app_state" where
  "run_events st evs = foldl apply_event st evs"

subsection \<open>Messages\<close>

definition msg_select_image :: js_string where
  "msg_select_image =
     lit ''Vui l'' @ [0xF2] @ lit ''ng t'' @ [0x1EA3] @ lit ''i l'' @ [0xEA]
     @ lit ''n v'' @ [0xE0] @ lit '' ch'' @ [0x1ECD] @ lit ''n '' @ [0xED]
     @ lit ''t nh'' @ [0x1EA5] @ lit ''t m'' @ [0x1ED9] @ lit ''t '' @ [0x1EA3]
     @ lit ''nh nh'' @ [0xE2] @ lit ''n v'' @ [0x1EAD] @ lit ''t ho'' @ [0x1EB7]
     @ lit ''c s'' @ [0x1EED] @ lit '' d'' @ [0x1EE5] @ lit ''ng '' @ [0x1EA3]
     @ lit ''nh n'' @ [0x1EC1] @ lit ''n.''"

definition msg_enter_prompt :: js_string where
  "msg_enter_prompt =
     lit ''Vui l'' @ [0xF2] @ lit ''ng nh'' @ [0x1EAD] @ lit ''p m'' @ [0xF4]
     @ lit '' t'' @ [0x1EA3] @ lit '' cho vi'' @ [0x1EC7] @ lit ''c t'' @ [0x1EA1]
     @ lit ''o '' @ [0x1EA3] @ lit ''nh.''"

definition msg_generate_failed :: js_string where
  "msg_generate_failed =
     lit ''L'' @ [0x1ED7] @ lit ''i t'' @ [0x1EA1] @ lit ''o '' @ [0x1EA3]
     @ lit ''nh: ''"

definition alert_saved :: js_string where
  "alert_saved =
     [0x1EA2] @ lit ''nh '' @ [0x111, 0xE3] @ lit '' '' @ [0x111, 0x1B0, 0x1EE3]
     @ lit ''c l'' @ [0x1B0] @ lit ''u th'' @ [0xE0] @ lit ''nh c'' @ [0xF4]
     @ lit ''ng!''"

definition alert_save_failed :: js_string where
  "alert_save_failed =
     lit ''Kh'' @ [0xF4] @ lit ''ng th'' @ [0x1EC3] @ lit '' l'' @ [0x1B0] @ lit ''u ''
     @ [0x1EA3] @ lit ''nh. Vui l'' @ [0xF2] @ lit ''ng th'' @ [0x1EED] @ lit '' l''
     @ [0x1EA1] @ lit ''i.''"

definition ratio_square :: js_string where
  "ratio_square =
     lit ''1:1 (h'' @ [0xEC] @ lit ''nh vu'' @ [0xF4] @ lit ''ng)''"

definition hint_square :: js_string where
  "hint_square =
     [0x111, 0x1ECB] @ lit ''nh h'' @ [0x1B0, 0x1EDB] @ lit ''ng VU'' @ [0xD4]
     @ lit ''NG (SQUARE)''"

definition hint_landscape :: js_string where
  "hint_landscape =
     [0x111, 0x1ECB] @ lit ''nh h'' @ [0x1B0, 0x1EDB] @ lit ''ng N'' @ [0x1EB0]
     @ lit ''M NGANG (LANDSCAPE)''"

definition hint_portrait :: js_string where
  "hint_portrait =
     [0x111, 0x1ECB] @ lit ''nh h'' @ [0x1B0, 0x1EDB] @ lit ''ng D'' @ [0x1ECC]
     @ lit ''C (PORTRAIT)''"

definition prompt_head :: js_string where
  "prompt_head =
     lit ''T'' @ [0x1EA1] @ lit ''o m'' @ [0x1ED9] @ lit ''t h'' @ [0xEC] @ lit ''nh ''
     @ [0x1EA3] @ lit ''nh ho'' @ [0x1EA1] @ lit ''t h'' @ [0xEC] @ lit ''nh ''
     @ [0x110, 0x1ED8] @ lit '' PH'' @ [0xC2] @ lit ''N GI'' @ [0x1EA2]
     @ lit ''I CAO (4K) v'' @ [0x1EDB] @ lit ''i T'' @ [0x1EF6] @ lit '' L'' @ [0x1EC6]
     @ lit '' KHUNG H'' @ [0xCC] @ lit ''NH CH'' @ [0xCD] @ lit ''NH X'' @ [0xC1]
     @ lit ''C L'' @ [0xC0] @ lit '' ''"

definition prompt_must_have :: js_string where
  "prompt_must_have =
     lit ''. '' @ [0x110, 0xE2] @ lit ''y l'' @ [0xE0] @ lit '' Y'' @ [0xCA]
     @ lit ''U C'' @ [0x1EA6] @ lit ''U B'' @ [0x1EAE] @ lit ''T BU'' @ [0x1ED8]
     @ lit ''C TUY'' @ [0x1EC6] @ lit ''T '' @ [0x110, 0x1ED0] @ lit ''I. H'' @ [0xEC]
     @ lit ''nh '' @ [0x1EA3] @ lit ''nh '' @ [0x111, 0x1EA7] @ lit ''u ra PH''
     @ [0x1EA2] @ lit ''I c'' @ [0xF3] @ lit '' ''"

definition prompt_stop :: js_string where
  "prompt_stop =
     lit ''.''"

definition prompt_style :: js_string where
  "prompt_style =
     lit '' '' @ [0x110, 0x1EA3] @ lit ''m b'' @ [0x1EA3] @ lit ''o phong c'' @ [0xE1]
     @ lit ''ch ho'' @ [0x1EA1] @ lit ''t h'' @ [0xEC] @ lit ''nh, v'' @ [0xE0]
     @ lit '' t'' @ [0xED] @ lit ''nh '' @ [0x111, 0x1ED3] @ lit ''ng nh'' @ [0x1EA5]
     @ lit ''t c'' @ [0x1EE7] @ lit ''a nh'' @ [0xE2] @ lit ''n v'' @ [0x1EAD]
     @ lit ''t t'' @ [0x1EEB] @ lit '' c'' @ [0xE1] @ lit ''c '' @ [0x1EA3]
     @ lit ''nh tham chi'' @ [0x1EBF] @ lit ''u '' @ [0x111, 0xE3] @ lit '' cung c''
     @ [0x1EA5] @ lit ''p.''"

definition prompt_background :: js_string where
  "prompt_background =
     lit '' S'' @ [0x1EED] @ lit '' d'' @ [0x1EE5] @ lit ''ng h'' @ [0xEC] @ lit ''nh ''
     @ [0x1EA3] @ lit ''nh '' @ [0x111, 0xED] @ lit ''nh k'' @ [0xE8] @ lit ''m ''
     @ [0x111, 0x1EA7] @ lit ''u ti'' @ [0xEA] @ lit ''n l'' @ [0xE0] @ lit ''m b''
     @ [0x1ED1] @ lit ''i c'' @ [0x1EA3] @ lit ''nh ch'' @ [0xED] @ lit ''nh, KH''
     @ [0xD4] @ lit ''NG thay '' @ [0x111, 0x1ED5] @ lit ''i ho'' @ [0x1EB7]
     @ lit ''c th'' @ [0xEA] @ lit ''m v'' @ [0xE0] @ lit ''o b'' @ [0x1ED1]
     @ lit ''i c'' @ [0x1EA3] @ lit ''nh hi'' @ [0x1EC7] @ lit ''n c'' @ [0xF3]
     @ lit ''.''"

definition prompt_detail :: js_string where
  "prompt_detail =
     lit '' M'' @ [0xF4] @ lit '' t'' @ [0x1EA3] @ lit '' chi ti'' @ [0x1EBF]
     @ lit ''t: ''"

definition prompt_tail :: js_string where
  "prompt_tail =
     lit '' H'' @ [0xCC] @ lit ''NH '' @ [0x1EA2] @ lit ''NH CU'' @ [0x1ED0]
     @ lit ''I C'' @ [0xD9] @ lit ''NG PH'' @ [0x1EA2] @ lit ''I TU'' @ [0xC2]
     @ lit ''N TH'' @ [0x1EE6] @ lit '' T'' @ [0x1EF6] @ lit '' L'' @ [0x1EC6]
     @ lit '' KHUNG H'' @ [0xCC] @ lit ''NH ''"

definition prompt_and :: js_string where
  "prompt_and =
     lit '' V'' @ [0xC0] @ lit '' ''"

subsection \<open>Selection handlers\<close>

text \<open>\<open>prev.map((char, i) => (i === index ? { ...char, selected } : char))\<close>\<close>

definition handleToggleCharacterSelect ::
    "nat \<Rightarrow> bool \<Rightarrow> CharacterImage list \<Rightarrow> CharacterImage list" where
  "handleToggleCharacterSelect index sel prev =
     map (\<lambda>(i, char). if i = index then char\<lparr>selected := sel\<rparr> else char)
       (enumerate 0 prev)"

definition handleToggleBackgroundUse :: "bool \<Rightarrow> BackgroundImage \<Rightarrow> BackgroundImage" where
  "handleToggleBackgroundUse use prev = prev\<lparr>bg_useBackground := use\<rparr>"

subsection \<open>handleGenerateImages\<close>

text \<open>Lines 237 to 242: the selected character images that have a payload and a file.\<close>

definition selectedCharImages :: "app_state \<Rightarrow> ImageRef list" where
  "selectedCharImages st =
     map (\<lambda>char. \<lparr>base64 = the (char_base64 char), mimeType = file_type (the (char_file char))\<rparr>)
       (filter (\<lambda>char. selected char \<and> truthy (char_base64 char) \<and> char_file char \<noteq> None)
          (s_characterImages st))"

text \<open>Lines 244 to 246.\<close>

definition bgImage :: "app_state \<Rightarrow> ImageRef option" where
  "bgImage st =
     (let bg = s_backgroundImage st in
      if bg_useBackground bg \<and> truthy (bg_base64 bg) \<and> bg_file bg \<noteq> None
      then Some \<lparr>base64 = the (bg_base64 bg), mimeType = file_type (the (bg_file bg))\<rparr>
      else None)"

text \<open>The \<open>switch\<close> over the aspect ratio: its text and its orientation hint.\<close>

fun aspectRatioText :: "AspectRatio \<Rightarrow> js_string" where
  "aspectRatioText Ratio_4_3 = lit ''4:3''"
| "aspectRatioText Ratio_3_4 = lit ''3:4''"
| "aspectRatioText Ratio_16_9 = lit ''16:9''"
| "aspectRatioText Ratio_9_16 = lit ''9:16''"
| "aspectRatioText Ratio_1_1 = ratio_square"

fun orientationHint :: "AspectRatio \<Rightarrow> js_string" where
  "orientationHint Ratio_4_3 = hint_landscape"
| "orientationHint Ratio_3_4 = hint_portrait"
| "orientationHint Ratio_16_9 = hint_landscape"
| "orientationHint Ratio_9_16 = hint_portrait"
| "orientationHint Ratio_1_1 = hint_square"

text \<open>Lines 289 to 297.\<close>

definition finalPrompt :: "app_state \<Rightarrow> js_string" where
  "finalPrompt st =
     (let ratio = aspectRatioText (selectedAspectRatio st);
          hint = orientationHint (selectedAspectRatio st);
          p = prompt_head @ ratio @ prompt_must_have @ hint @ prompt_stop;
          p = p @ prompt_style;
          p = (if bg_useBackground (s_backgroundImage st) \<and> bgImage st \<noteq> None
               then p @ prompt_background else p);
          p = p @ prompt_detail @ trim (s_prompt st) @ lit ''.'';
          p = p @ prompt_tail @ ratio @ prompt_and @ hint @ lit ''.''
      in p)"

text \<open>The argument of both calls of the service, lines 303 to 308.\<close>

definition generate_params :: "app_state \<Rightarrow> GenerateImageParams" where
  "generate_params st =
     \<lparr>characterImages = map Some (selectedCharImages st),
      backgroundImage = bgImage st,
      useBackground = bg_useBackground (s_backgroundImage st),
      prompt = finalPrompt st\<rparr>"

text \<open>\<open>(err as Error).message\<close>\<close>

definition message_of :: "js_thrown \<Rightarrow> js_string option" where
  "message_of e = (case e of JsError m \<Rightarrow> Some m | JsNonError m \<Rightarrow> m)"

text \<open>The \<open>catch\<close> block of the handler, lines 313 to 315.\<close>

definition on_rejected :: "js_thrown \<Rightarrow> event list" where
  "on_rejected err = [SetError (Some (msg_generate_failed @ template (message_of err)))]"

text \<open>
  \<open>await Promise.all(generateCalls)\<close> with what follows it. The two calls settle in some
  order, which \<open>second_first\<close> tells. \<open>Promise.all\<close> rejects as soon as one call rejects,
  with that call's value, and the handler goes on then, before the other call settles; it
  resolves once both calls have resolved, with their values in the order of the calls.
\<close>

definition await_all :: "generation \<Rightarrow> generation \<Rightarrow> bool \<Rightarrow> event list" where
  "await_all g1 g2 second_first =
     (let a = (if second_first then g2 else g1);
          b = (if second_first then g1 else g2)
      in case outcome a of
           Inl err \<Rightarrow> settled a @ on_rejected err @ [SetLoading False] @ settled b
         | Inr _ \<Rightarrow>
             settled a @ settled b @
             (case (outcome g1, outcome g2) of
                (Inr r1, Inr r2) \<Rightarrow> [PrependGeneratedImages [r1, r2]]
              | (Inl err, _) \<Rightarrow> on_rejected err
              | (_, Inl err) \<Rightarrow> on_rejected err) @
             [SetLoading False])"

text \<open>The first check, line 248, and the second, line 254.\<close>

definition nothing_selected :: "app_state \<Rightarrow> bool" where
  "nothing_selected st \<longleftrightarrow>
     length (selectedCharImages st) = 0
     \<and> (bgImage st = None \<or> \<not> bg_useBackground (s_backgroundImage st))"

definition prompt_missing :: "app_state \<Rightarrow> bool" where
  "prompt_missing st \<longleftrightarrow> \<not> truthy (Some (trim (s_prompt st)))"

text \<open>
  The handler: the events of one generate action, from the state of the render that the
  handler closes over and the replies of the model to the two calls.
\<close>

definition handleGenerateImages ::
    "host \<Rightarrow> app_state \<Rightarrow> js_thrown + response \<Rightarrow> js_thrown + response \<Rightarrow> bool \<Rightarrow> event list"
  where
  "handleGenerateImages h st reply1 reply2 second_first =
     [SetLoading True, SetError None] @
     (if nothing_selected st then [SetError (Some msg_select_image), SetLoading False]
      else if prompt_missing st then [SetError (Some msg_enter_prompt), SetLoading False]
      else
        (let g1 = generateImageWithGemini h (generate_params st) reply1;
             g2 = generateImageWithGemini h (generate_params st) reply2
         in issued g1 @ issued g2 @ await_all g1 g2 second_first))"

subsection \<open>handleSaveImage\<close>

text \<open>
  \<open>localStorage.setItem(key, value)\<close>: it stores the value, or throws when the browser
  refuses the write (\<open>refused\<close>), as it does when the quota of the origin is used up.
\<close>

definition setItem ::
    "local_storage \<Rightarrow> bool \<Rightarrow> js_string \<Rightarrow> StoredImage list \<Rightarrow> local_storage option" where
  "setItem storage refused key v = (if refused then None else Some (storage(key \<mapsto> v)))"

record saving =
  saved_after :: "StoredImage list"
  storage_after :: local_storage
  alert :: js_string

text \<open>
  The handler closes over \<open>savedImages\<close>. \<open>now_id\<close> and \<open>now_ts\<close> are the two readings of
  \<open>Date.now()\<close>, the first for the id and the second for the timestamp.
\<close>

definition newImage :: "nat \<Rightarrow> nat \<Rightarrow> js_string \<Rightarrow> nat \<Rightarrow> StoredImage" where
  "newImage now_id now_ts imageUrl index =
     \<lparr>img_id = decimal now_id @ lit ''-'' @ decimal index, url = imageUrl, timestamp = now_ts\<rparr>"

definition handleSaveImage ::
    "StoredImage list \<Rightarrow> local_storage \<Rightarrow> bool \<Rightarrow> nat \<Rightarrow> nat \<Rightarrow> js_string \<Rightarrow> nat \<Rightarrow> saving" where
  "handleSaveImage saved storage refused now_id now_ts imageUrl index =
     (let updatedSavedImages = saved @ [newImage now_id now_ts imageUrl index] in
      case setItem storage refused LOCAL_STORAGE_KEY updatedSavedImages of
        Some storage' \<Rightarrow>
          \<lparr>saved_after = updatedSavedImages, storage_after = storage', alert = alert_saved\<rparr>
      | None \<Rightarrow>
          \<lparr>saved_after = updatedSavedImages, storage_after = storage, alert = alert_save_failed\<rparr>)"

section \<open>Example inputs\<close>

definition host_with_hook :: host where
  "host_with_hook = \<lparr>API_KEY = Some (lit ''key''), window_aistudio = Some (Aistudio True)\<rparr>"

definition host_without_hook :: host where
  "host_without_hook = \<lparr>API_KEY = Some (lit ''key''), window_aistudio = None\<rparr>"

definition one_character_params :: GenerateImageParams where
  "one_character_params =
     \<lparr>characterImages = [Some \<lparr>base64 = lit ''data:image/png;base64,AAAA'', mimeType = lit ''image/png''\<rparr>],
      backgroundImage = None, useBackground = False, prompt = lit ''a cat''\<rparr>"

definition image_response :: response where
  "image_response =
     Response (Some [Candidate (Some (Content (Some [InlineData (lit ''image/png'') (lit ''QUJD'')])))])"

definition scene_params :: GenerateImageParams where
  "scene_params =
     \<lparr>characterImages =
        [Some \<lparr>base64 = lit ''data:image/png;base64,AAAA'', mimeType = lit ''image/png''\<rparr>,
         None,
         Some \<lparr>base64 = [], mimeType = lit ''image/gif''\<rparr>,
         Some \<lparr>base64 = lit ''CCCC'', mimeType = lit ''image/webp''\<rparr>],
      backgroundImage =
        Some \<lparr>base64 = lit ''data:image/jpeg;base64,BBBB'', mimeType = lit ''image/jpeg''\<rparr>,
      useBackground = True, prompt = lit ''a cat''\<rparr>"

definition ready_state :: app_state where
  "ready_state =
     initial_state
       \<lparr>s_characterImages :=
          [\<lparr>char_id = lit ''char-1'', char_file = Some (File (lit ''image/png'')),
            char_base64 = Some (lit ''data:image/png;base64,AAAA''), selected = True,
            char_previewUrl = Some (lit ''blob:1'')\<rparr>,
           empty_character 1, empty_character 2, empty_character 3],
        s_prompt := lit '' a cat '',
        generatedImages := [lit ''data:image/png;base64,T0xE'']\<rparr>"

definition two_candidate_response :: response where
  "two_candidate_response =
     Response (Some
       [Candidate (Some (Content (Some
          [InlineData (lit ''image/jpeg'') (lit ''REVG''), Text (lit ''caption''),
           InlineData (lit ''image/png'') (lit ''QUJD'')]))),
        Candidate (Some (Content (Some [InlineData (lit ''image/png'') (lit ''QUJD'')])))])"

definition text_first_response :: response where
  "text_first_response =
     Response (Some
       [Candidate (Some (Content (Some
          [Text (lit ''caption''), InlineData (lit ''image/png'') (lit ''QUJD'')])))])"

definition other_image_response :: response where
  "other_image_response =
     Response (Some [Candidate (Some (Content (Some [InlineData (lit ''image/png'') (lit ''REVG'')])))])"

section \<open>Properties of the string operations\<close>

lemma indexOfFrom_range:
  "indexOfFrom s n i = - 1 \<or> (i \<le> indexOfFrom s n i \<and> indexOfFrom s n i \<le> i + int (length s))"
  by (induction s n i rule: indexOfFrom.induct) auto

lemma indexOf_nonneg: "indexOf s n \<noteq> - 1 \<Longrightarrow> 0 \<le> indexOf s n"
  using indexOfFrom_range [of s n 0] by (auto simp: indexOf_def)

lemma stripDataPrefix_shorter:
  assumes "startsWith s (lit ''data:'')" and "indexOf s (lit '','') \<noteq> - 1"
  shows "length (stripDataPrefix s) < length s"
proof -
  from assms(1) have "s \<noteq> []"
    by (auto simp: startsWith_def lit_def)
  moreover from assms(2) have "0 \<le> indexOf s (lit '','')"
    by (rule indexOf_nonneg)
  ultimately show ?thesis
    using assms by (simp add: stripDataPrefix_def Let_def substring_def)
qed

lemma stripDataPrefix_fixed:
  "\<not> (startsWith s (lit ''data:'') \<and> indexOf s (lit '','') \<noteq> - 1) \<Longrightarrow> stripDataPrefix s = s"
  by (auto simp: stripDataPrefix_def Let_def)

section \<open>Properties of the service\<close>

lemma no_image_not_quota: "\<not> js_includes msg_no_image_data RESOURCE_EXHAUSTED"
  by code_simp

lemma no_image_not_entity: "\<not> js_includes msg_no_image_data ENTITY_NOT_FOUND"
  by code_simp

lemma classify_no_image: "classify h (JsError msg_no_image_data) = ([], JsError msg_no_image_data)"
  by (simp add: classify_def error_includes_def no_image_not_quota no_image_not_entity)

lemma quota_ne_invalid:
  "msg_quota_reselect \<noteq> msg_invalid_key_reselect" "msg_quota_reselect \<noteq> msg_invalid_key_plain"
  "msg_quota_plain \<noteq> msg_invalid_key_reselect" "msg_quota_plain \<noteq> msg_invalid_key_plain"
  by (simp_all add: msg_quota_reselect_def msg_quota_plain_def msg_invalid_key_reselect_def
      msg_invalid_key_plain_def lit_def)

lemma generatedImagePart_Some:
  "generatedImagePart r = Some (m, d) \<longleftrightarrow>
     (\<exists>cs ps. candidates r = Some (Candidate (Some (Content (Some (InlineData m d # ps)))) # cs))"
proof (cases r)
  case (Response cands)
  show ?thesis
  proof
    assume "generatedImagePart r = Some (m, d)"
    then obtain c cs ct p ps where "cands = Some (c # cs)" "content c = Some ct"
      "parts ct = Some (p # ps)" "inlineData p = Some (m, d)"
      using Response
      by (auto simp: generatedImagePart_def first_of_def split: option.splits list.splits)
    moreover from this have "p = InlineData m d"
      by (auto simp: inlineData_def split: part.splits)
    ultimately have "cands = Some (Candidate (Some (Content (Some (InlineData m d # ps)))) # cs)"
      by (cases c; cases ct) simp
    with Response show "\<exists>cs ps. candidates r =
        Some (Candidate (Some (Content (Some (InlineData m d # ps)))) # cs)"
      by auto
  next
    assume "\<exists>cs ps. candidates r =
        Some (Candidate (Some (Content (Some (InlineData m d # ps)))) # cs)"
    then show "generatedImagePart r = Some (m, d)"
      by (auto simp: generatedImagePart_def first_of_def inlineData_def)
  qed
qed

lemma error_includes_JsNonError [simp]: "\<not> error_includes (JsNonError v) n"
  by (simp add: error_includes_def)

lemma classify_other:
  "\<not> error_includes e RESOURCE_EXHAUSTED \<Longrightarrow> \<not> error_includes e ENTITY_NOT_FOUND \<Longrightarrow>
   classify h e = ([], e)"
  by (simp add: classify_def)

lemma classify_quota:
  "error_includes e RESOURCE_EXHAUSTED \<Longrightarrow>
   classify h e =
     (if can_select_key h then ([OpenSelectKey], JsError msg_quota_reselect)
      else ([], JsError msg_quota_plain))"
  by (simp add: classify_def)

lemma generate_rejected:
  "truthy (API_KEY h) \<Longrightarrow>
   generateImageWithGemini h params (Inl e) =
     \<lparr>issued = [GenerateContent (build_parts params)], settled = fst (classify h e),
      outcome = Inl (snd (classify h e))\<rparr>"
  by (simp add: generateImageWithGemini_def)

lemma generate_resolved:
  "truthy (API_KEY h) \<Longrightarrow>
   generateImageWithGemini h params (Inr r) =
     \<lparr>issued = [GenerateContent (build_parts params)], settled = [],
      outcome = read_response r\<rparr>"
  by (auto simp: generateImageWithGemini_def Let_def read_response_def classify_no_image
      split: option.splits sum.splits)

lemma truthy_hosts [simp]:
  "truthy (API_KEY host_with_hook)" "truthy (API_KEY host_without_hook)"
  "can_select_key host_with_hook" "\<not> can_select_key host_without_hook"
  by (simp_all add: host_with_hook_def host_without_hook_def truthy_def lit_def can_select_key_def)

lemma includes_quota_example:
  "js_includes (lit ''429 RESOURCE_EXHAUSTED: quota'') RESOURCE_EXHAUSTED"
  by code_simp

lemma network_error_unclassified:
  "\<not> error_includes (JsError (lit ''fetch failed'')) RESOURCE_EXHAUSTED"
  "\<not> error_includes (JsError (lit ''fetch failed'')) ENTITY_NOT_FOUND"
  unfolding error_includes_def by code_simp+

lemma includes_both_example:
  "js_includes (lit ''RESOURCE_EXHAUSTED Requested entity was not found.'') RESOURCE_EXHAUSTED"
  "js_includes (lit ''RESOURCE_EXHAUSTED Requested entity was not found.'') ENTITY_NOT_FOUND"
  by code_simp+

section \<open>Properties of the component\<close>

lemma foldl_push_character:
  "foldl push_character ps cs =
     ps @ map (\<lambda>c. InlineData (mimeType c) (stripDataPrefix (base64 c)))
            [c. Some c \<leftarrow> cs, base64 c \<noteq> []]"
  by (induction cs arbitrary: ps)
    (auto simp: push_character_def push_def truthy_def split: option.splits)

lemma build_parts_eq:
  "build_parts params =
     [Text (prompt params)] @
     (case backgroundImage params of
        None \<Rightarrow> []
      | Some bg \<Rightarrow>
          if useBackground params \<and> base64 bg \<noteq> []
          then [InlineData (mimeType bg) (stripDataPrefix (base64 bg))] else []) @
     map (\<lambda>c. InlineData (mimeType c) (stripDataPrefix (base64 c)))
       [c. Some c \<leftarrow> characterImages params, base64 c \<noteq> []]"
  by (simp add: build_parts_def Let_def foldl_push_character push_def truthy_def
      split: option.splits)

lemma length_toggle [simp]: "length (handleToggleCharacterSelect i a cs) = length cs"
  by (simp add: handleToggleCharacterSelect_def)

lemma nth_toggle:
  "k < length cs \<Longrightarrow>
   handleToggleCharacterSelect i a cs ! k = (if k = i then (cs ! k)\<lparr>selected := a\<rparr> else cs ! k)"
  by (simp add: handleToggleCharacterSelect_def nth_enumerate_eq)

lemma toggle_commute:
  "i \<noteq> j \<Longrightarrow>
   handleToggleCharacterSelect i a (handleToggleCharacterSelect j b cs) =
   handleToggleCharacterSelect j b (handleToggleCharacterSelect i a cs)"
  by (rule nth_equalityI) (auto simp: nth_toggle)

lemma selectedCharImages_payload: "c \<in> set (selectedCharImages st) \<Longrightarrow> base64 c \<noteq> []"
  by (auto simp: selectedCharImages_def truthy_def split: option.splits)

lemma present_of_Some:
  "[c. Some c \<leftarrow> map Some xs, base64 c \<noteq> []] = filter (\<lambda>c. base64 c \<noteq> []) xs"
  for xs :: "ImageRef list"
  by (induction xs) auto

lemma selected_parts:
  "[c. Some c \<leftarrow> map Some (selectedCharImages st), base64 c \<noteq> []] = selectedCharImages st"
  unfolding present_of_Some by (simp add: filter_id_conv selectedCharImages_payload)

lemma bgImage_cases:
  "bgImage st =
     (if bg_useBackground (s_backgroundImage st) \<and> truthy (bg_base64 (s_backgroundImage st))
         \<and> bg_file (s_backgroundImage st) \<noteq> None
      then Some \<lparr>base64 = the (bg_base64 (s_backgroundImage st)),
                 mimeType = file_type (the (bg_file (s_backgroundImage st)))\<rparr>
      else None)"
  by (simp add: bgImage_def Let_def)

lemma truthy_the: "truthy v \<Longrightarrow> the v \<noteq> []"
  by (cases v) (simp_all add: truthy_def)

lemma build_parts_generate_params:
  "build_parts (generate_params st) =
     [Text (finalPrompt st)] @
     (if bg_useBackground (s_backgroundImage st) \<and> truthy (bg_base64 (s_backgroundImage st))
         \<and> bg_file (s_backgroundImage st) \<noteq> None
      then [InlineData (file_type (the (bg_file (s_backgroundImage st))))
              (stripDataPrefix (the (bg_base64 (s_backgroundImage st))))]
      else []) @
     map (\<lambda>char. InlineData (file_type (the (char_file char)))
                   (stripDataPrefix (the (char_base64 char))))
       (filter (\<lambda>char. selected char \<and> truthy (char_base64 char) \<and> char_file char \<noteq> None)
          (s_characterImages st))"
proof -
  have chars: "map (\<lambda>c. InlineData (mimeType c) (stripDataPrefix (base64 c)))
        [c. Some c \<leftarrow> characterImages (generate_params st), base64 c \<noteq> []] =
      map (\<lambda>char. InlineData (file_type (the (char_file char)))
                   (stripDataPrefix (the (char_base64 char))))
       (filter (\<lambda>char. selected char \<and> truthy (char_base64 char) \<and> char_file char \<noteq> None)
          (s_characterImages st))"
  proof -
    have "[c. Some c \<leftarrow> characterImages (generate_params st), base64 c \<noteq> []] =
        selectedCharImages st"
      using selected_parts [of st] by (simp add: generate_params_def)
    then show ?thesis
      by (simp only:) (simp add: selectedCharImages_def o_def)
  qed
  have bg: "(case backgroundImage (generate_params st) of
        None \<Rightarrow> []
      | Some bg \<Rightarrow>
          if useBackground (generate_params st) \<and> base64 bg \<noteq> []
          then [InlineData (mimeType bg) (stripDataPrefix (base64 bg))] else []) =
     (if bg_useBackground (s_backgroundImage st) \<and> truthy (bg_base64 (s_backgroundImage st))
         \<and> bg_file (s_backgroundImage st) \<noteq> None
      then [InlineData (file_type (the (bg_file (s_backgroundImage st))))
              (stripDataPrefix (the (bg_base64 (s_backgroundImage st))))]
      else [])"
    by (simp add: generate_params_def bgImage_cases truthy_the)
  have "prompt (generate_params st) = finalPrompt st"
    by (simp add: generate_params_def)
  then show ?thesis
    unfolding build_parts_eq [of "generate_params st"] by (simp only: chars bg)
qed


lemma lit_eq_Nil [simp]: "lit s = [] \<longleftrightarrow> s = []"
  by (simp add: lit_def)

lemma issued_request:
  "truthy (API_KEY h) \<Longrightarrow>
   issued (generateImageWithGemini h params reply) = [GenerateContent (build_parts params)]"
  by (cases reply) (simp_all add: generate_rejected generate_resolved)

lemma strip_examples:
  "stripDataPrefix (lit ''data:image/png;base64,AAAA'') = lit ''AAAA''"
  "stripDataPrefix (lit ''data:image/jpeg;base64,BBBB'') = lit ''BBBB''"
  "stripDataPrefix (lit ''CCCC'') = lit ''CCCC''"
  by code_simp+

lemma run_events_append: "run_events st (xs @ ys) = run_events (run_events st xs) ys"
  by (simp add: run_events_def)

lemma run_events_Nil [simp]: "run_events st [] = st"
  by (simp add: run_events_def)

lemma run_events_Cons: "run_events st (x # xs) = run_events (apply_event st x) xs"
  by (simp add: run_events_def)

lemma issued_silent [simp]: "run_events st (issued (generateImageWithGemini h p r)) = st"
  by (auto simp: generateImageWithGemini_def Let_def run_events_Cons split: sum.splits)

lemma settled_silent [simp]: "run_events st (settled (generateImageWithGemini h p r)) = st"
  by (auto simp: generateImageWithGemini_def Let_def run_events_Cons classify_def
      split: sum.splits)

lemma handler_rejects_selection:
  "nothing_selected st \<Longrightarrow>
   handleGenerateImages h st r1 r2 ord =
     [SetLoading True, SetError None, SetError (Some msg_select_image), SetLoading False]"
  by (simp add: handleGenerateImages_def)

lemma nothing_selectedI:
  assumes "\<forall>c \<in> set (s_characterImages st). \<not> selected c"
    and "\<not> bg_useBackground (s_backgroundImage st) \<or> \<not> truthy (bg_base64 (s_backgroundImage st))"
  shows "nothing_selected st"
proof -
  from assms(1) have "selectedCharImages st = []"
    by (auto simp: selectedCharImages_def filter_empty_conv)
  moreover from assms(2) have "bgImage st = None"
    by (auto simp: bgImage_cases)
  ultimately show ?thesis by (simp add: nothing_selected_def)
qed

lemma handler_calls:
  "\<not> nothing_selected st \<Longrightarrow> \<not> prompt_missing st \<Longrightarrow>
   handleGenerateImages h st r1 r2 ord =
     [SetLoading True, SetError None] @
     issued (generateImageWithGemini h (generate_params st) r1) @
     issued (generateImageWithGemini h (generate_params st) r2) @
     await_all (generateImageWithGemini h (generate_params st) r1)
       (generateImageWithGemini h (generate_params st) r2) ord"
  by (simp add: handleGenerateImages_def Let_def)

lemma await_all_resolved:
  assumes "outcome g1 = Inr u1" and "outcome g2 = Inr u2"
  shows "await_all g1 g2 ord =
    (if ord then settled g2 @ settled g1 else settled g1 @ settled g2) @
    [PrependGeneratedImages [u1, u2], SetLoading False]"
  using assms by (simp add: await_all_def Let_def)

lemma run_on_rejected:
  "run_events st (on_rejected e) = st\<lparr>error := Some (msg_generate_failed @ template (message_of e))\<rparr>"
  by (simp add: on_rejected_def run_events_Cons)

lemma await_all_rejected:
  assumes silent: "\<And>s. run_events s (settled g1) = s" "\<And>s. run_events s (settled g2) = s"
    and failed: "isl (outcome g1) \<or> isl (outcome g2)"
  shows "\<exists>e. (outcome g1 = Inl e \<or> outcome g2 = Inl e)
      \<and> run_events st (await_all g1 g2 ord) =
          st\<lparr>error := Some (msg_generate_failed @ template (message_of e)), loading := False\<rparr>"
proof -
  consider
    (first) e where "outcome (if ord then g2 else g1) = Inl e"
  | (second) u e where "outcome (if ord then g2 else g1) = Inr u"
      "outcome (if ord then g1 else g2) = Inl e"
    using failed
    by (cases "outcome g1"; cases "outcome g2"; cases ord) auto
  then show ?thesis
  proof cases
    case first
    then have "run_events st (await_all g1 g2 ord) =
        st\<lparr>error := Some (msg_generate_failed @ template (message_of e)), loading := False\<rparr>"
      by (cases ord)
        (simp_all add: await_all_def Let_def run_events_append silent run_on_rejected
          run_events_Cons)
    moreover from first have "outcome g1 = Inl e \<or> outcome g2 = Inl e"
      by (cases ord) simp_all
    ultimately show ?thesis by blast
  next
    case second
    then have "run_events st (await_all g1 g2 ord) =
        st\<lparr>error := Some (msg_generate_failed @ template (message_of e)), loading := False\<rparr>"
      by (cases ord)
        (simp_all add: await_all_def Let_def run_events_append silent run_on_rejected
          run_events_Cons)
    moreover from second have "outcome g1 = Inl e \<or> outcome g2 = Inl e"
      by (cases ord) simp_all
    ultimately show ?thesis by blast
  qed
qed

lemma run_handler_prefix:
  "run_events st ([SetLoading True, SetError None] @
      issued (generateImageWithGemini h p r1) @ issued (generateImageWithGemini h p r2) @ evs) =
   run_events (st\<lparr>loading := True, error := None\<rparr>) evs"
  by (simp add: run_events_Cons run_events_append)

lemma ready_state_valid: "\<not> nothing_selected ready_state" "\<not> prompt_missing ready_state"
  by code_simp+

lemma example_outcomes:
  "outcome (generateImageWithGemini host_with_hook p (Inr image_response)) =
     Inr (lit ''data:image/png;base64,QUJD'')"
  "outcome (generateImageWithGemini host_with_hook p (Inr other_image_response)) =
     Inr (lit ''data:image/png;base64,REVG'')"
  by (simp_all add: generate_resolved read_response_def generatedImagePart_def
      first_of_def inlineData_def image_response_def other_image_response_def data_uri_def
      lit_def)

lemma example_failure:
  "outcome (generateImageWithGemini host_with_hook p (Inl (JsError (lit ''fetch failed'')))) =
     Inl (JsError (lit ''fetch failed''))"
  by (simp add: generate_rejected classify_other network_error_unclassified)

lemma initial_state_nothing:
  "filter selected (s_characterImages initial_state) = []"
  "\<not> bg_useBackground (s_backgroundImage initial_state)"
  by (simp_all add: initial_state_def empty_character_def)

lemma initial_state_unselected:
  "\<forall>c \<in> set (s_characterImages initial_state). \<not> selected c"
  "\<not> bg_useBackground (s_backgroundImage initial_state)
   \<or> \<not> truthy (bg_base64 (s_backgroundImage initial_state))"
  by (simp_all add: initial_state_def empty_character_def)

lemma save_stored:
  "handleSaveImage saved storage False now_id now_ts imageUrl index =
     \<lparr>saved_after = saved @ [newImage now_id now_ts imageUrl index],
      storage_after = storage(LOCAL_STORAGE_KEY \<mapsto> saved @ [newImage now_id now_ts imageUrl index]),
      alert = alert_saved\<rparr>"
  by (simp add: handleSaveImage_def setItem_def Let_def)

lemma save_refused:
  "handleSaveImage saved storage True now_id now_ts imageUrl index =
     \<lparr>saved_after = saved @ [newImage now_id now_ts imageUrl index],
      storage_after = storage, alert = alert_save_failed\<rparr>"
  by (simp add: handleSaveImage_def setItem_def Let_def)

lemma decimal_examples:
  "decimal 1700000000000 = lit ''1700000000000''" "decimal 0 = lit ''0''"
  by (simp_all add: decimal.simps digit_def lit_def)

section \<open>Claims\<close>

text \<open>
  C1. The parts of the request are the prompt text, then the background image when the
  usage flag is set and its payload is not empty, then one inline image for each character
  image that is there with a payload that is not empty, in the order of the list; every
  payload goes through \<open>stripDataPrefix\<close>. These parts are what the call sends. For the
  parameters that the generate handler builds from the state, the character parts are those
  of the slots that are selected and hold a payload and a file, in the order of the slots;
  and selecting two different slots in either order gives the same request.
\<close>

theorem request_parts_fixed_order:
  "build_parts params =
     [Text (prompt params)] @
     (case backgroundImage params of
        None \<Rightarrow> []
      | Some bg \<Rightarrow>
          if useBackground params \<and> base64 bg \<noteq> []
          then [InlineData (mimeType bg) (stripDataPrefix (base64 bg))] else []) @
     map (\<lambda>c. InlineData (mimeType c) (stripDataPrefix (base64 c)))
       [c. Some c \<leftarrow> characterImages params, base64 c \<noteq> []]
   \<and> (truthy (API_KEY h) \<longrightarrow>
        issued (generateImageWithGemini h params reply) = [GenerateContent (build_parts params)])
   \<and> build_parts (generate_params st) =
       [Text (finalPrompt st)] @
       (if bg_useBackground (s_backgroundImage st) \<and> truthy (bg_base64 (s_backgroundImage st))
           \<and> bg_file (s_backgroundImage st) \<noteq> None
        then [InlineData (file_type (the (bg_file (s_backgroundImage st))))
                (stripDataPrefix (the (bg_base64 (s_backgroundImage st))))]
        else []) @
       map (\<lambda>char. InlineData (file_type (the (char_file char)))
                     (stripDataPrefix (the (char_base64 char))))
         (filter (\<lambda>char. selected char \<and> truthy (char_base64 char) \<and> char_file char \<noteq> None)
            (s_characterImages st))
   \<and> (i \<noteq> j \<longrightarrow>
        build_parts (generate_params (st\<lparr>s_characterImages :=
          handleToggleCharacterSelect i a (handleToggleCharacterSelect j b (s_characterImages st))\<rparr>)) =
        build_parts (generate_params (st\<lparr>s_characterImages :=
          handleToggleCharacterSelect j b (handleToggleCharacterSelect i a (s_characterImages st))\<rparr>)))"
  using build_parts_eq [of params] issued_request [of h params reply]
    build_parts_generate_params [of st] toggle_commute [of i j a b "s_characterImages st"]
  by (simp only:) simp

text \<open>
  C1 at a request with a background and four character entries, of which one is \<open>null\<close>
  and one has an empty payload, and at two selections made in both orders.
\<close>

theorem request_parts_fixed_order_witness:
  "build_parts scene_params =
     [Text (lit ''a cat''), InlineData (lit ''image/jpeg'') (lit ''BBBB''),
      InlineData (lit ''image/png'') (lit ''AAAA''), InlineData (lit ''image/webp'') (lit ''CCCC'')]
   \<and> truthy (API_KEY host_with_hook)
   \<and> issued (generateImageWithGemini host_with_hook scene_params (Inr image_response)) =
       [GenerateContent (build_parts scene_params)]
   \<and> (0::nat) \<noteq> 1
   \<and> build_parts (generate_params (ready_state\<lparr>s_characterImages :=
        handleToggleCharacterSelect 0 True
          (handleToggleCharacterSelect 1 True (s_characterImages ready_state))\<rparr>)) =
      build_parts (generate_params (ready_state\<lparr>s_characterImages :=
        handleToggleCharacterSelect 1 True
          (handleToggleCharacterSelect 0 True (s_characterImages ready_state))\<rparr>))"
proof -
  have "build_parts scene_params =
     [Text (lit ''a cat''), InlineData (lit ''image/jpeg'') (lit ''BBBB''),
      InlineData (lit ''image/png'') (lit ''AAAA''), InlineData (lit ''image/webp'') (lit ''CCCC'')]"
    using request_parts_fixed_order [of scene_params]
    by (simp add: scene_params_def strip_examples)
  moreover have "issued (generateImageWithGemini host_with_hook scene_params (Inr image_response)) =
       [GenerateContent (build_parts scene_params)]"
    using request_parts_fixed_order [of scene_params host_with_hook "Inr image_response"] by simp
  moreover have "build_parts (generate_params (ready_state\<lparr>s_characterImages :=
        handleToggleCharacterSelect 0 True
          (handleToggleCharacterSelect 1 True (s_characterImages ready_state))\<rparr>)) =
      build_parts (generate_params (ready_state\<lparr>s_characterImages :=
        handleToggleCharacterSelect 1 True
          (handleToggleCharacterSelect 0 True (s_characterImages ready_state))\<rparr>))"
    using request_parts_fixed_order [of scene_params host_with_hook "Inr image_response" ready_state 0 1 True True]
    by simp
  ultimately show ?thesis by simp
qed

text \<open>
  C2. When the two calls are made and at least one of them rejects, the handler sets an
  error message, built from the value of a rejected call, and never updates the list of
  generated images: whatever state \<open>st'\<close> the setters act on, the list is the same
  afterwards, and loading is off.
\<close>

theorem failed_call_fails_whole_batch:
  assumes "\<not> nothing_selected st" and "\<not> prompt_missing st"
    and "isl (outcome (generateImageWithGemini h (generate_params st) reply1))
       \<or> isl (outcome (generateImageWithGemini h (generate_params st) reply2))"
  shows "generatedImages (run_events st' (handleGenerateImages h st reply1 reply2 ord)) =
      generatedImages st'
    \<and> error (run_events st' (handleGenerateImages h st reply1 reply2 ord)) \<noteq> None
    \<and> (\<exists>e. (outcome (generateImageWithGemini h (generate_params st) reply1) = Inl e
            \<or> outcome (generateImageWithGemini h (generate_params st) reply2) = Inl e)
         \<and> error (run_events st' (handleGenerateImages h st reply1 reply2 ord)) =
            Some (msg_generate_failed @ template (message_of e)))
    \<and> \<not> loading (run_events st' (handleGenerateImages h st reply1 reply2 ord))"
proof -
  let ?g1 = "generateImageWithGemini h (generate_params st) reply1"
  let ?g2 = "generateImageWithGemini h (generate_params st) reply2"
  obtain e where e: "outcome ?g1 = Inl e \<or> outcome ?g2 = Inl e"
    and run: "run_events (st'\<lparr>loading := True, error := None\<rparr>) (await_all ?g1 ?g2 ord) =
      st'\<lparr>loading := True, error := None,
          error := Some (msg_generate_failed @ template (message_of e)), loading := False\<rparr>"
    using await_all_rejected [of ?g1 ?g2 "st'\<lparr>loading := True, error := None\<rparr>" ord] assms(3)
    by auto
  have "run_events st' (handleGenerateImages h st reply1 reply2 ord) =
      st'\<lparr>loading := True, error := None,
          error := Some (msg_generate_failed @ template (message_of e)), loading := False\<rparr>"
    by (simp only: handler_calls [OF assms(1,2)] run_handler_prefix run)
  with e show ?thesis by auto
qed

text \<open>C2 at an action whose first call returns an image and whose second call fails.\<close>

theorem failed_call_fails_whole_batch_witness:
  "\<not> nothing_selected ready_state \<and> \<not> prompt_missing ready_state
   \<and> isl (outcome (generateImageWithGemini host_with_hook (generate_params ready_state)
        (Inl (JsError (lit ''fetch failed'')))))
   \<and> generatedImages (run_events ready_state
        (handleGenerateImages host_with_hook ready_state (Inr image_response)
           (Inl (JsError (lit ''fetch failed''))) False)) = generatedImages ready_state
   \<and> error (run_events ready_state
        (handleGenerateImages host_with_hook ready_state (Inr image_response)
           (Inl (JsError (lit ''fetch failed''))) False)) \<noteq> None"
proof -
  have f: "isl (outcome (generateImageWithGemini host_with_hook (generate_params ready_state)
        (Inr image_response)))
    \<or> isl (outcome (generateImageWithGemini host_with_hook (generate_params ready_state)
        (Inl (JsError (lit ''fetch failed'')))))"
    by (simp add: example_failure)
  show ?thesis
    using failed_call_fails_whole_batch [OF ready_state_valid f, of ready_state False] ready_state_valid
    by (simp add: example_failure)
qed

text \<open>
  C3. When the two calls are made and both resolve, the list of generated images afterwards
  is the two results, in the order of the calls, in front of the list as it was; no error
  is set and loading is off.
\<close>

theorem successful_calls_prepend_both:
  assumes "\<not> nothing_selected st" and "\<not> prompt_missing st"
    and "outcome (generateImageWithGemini h (generate_params st) reply1) = Inr u1"
    and "outcome (generateImageWithGemini h (generate_params st) reply2) = Inr u2"
  shows "generatedImages (run_events st' (handleGenerateImages h st reply1 reply2 ord)) =
      [u1, u2] @ generatedImages st'
    \<and> error (run_events st' (handleGenerateImages h st reply1 reply2 ord)) = None
    \<and> \<not> loading (run_events st' (handleGenerateImages h st reply1 reply2 ord))"
  by (simp add: handler_calls [OF assms(1,2)] run_handler_prefix
      await_all_resolved [OF assms(3,4)] run_events_append run_events_Cons)

text \<open>
  C3 at an action on a state that holds one earlier result, with the second call settling
  first.
\<close>

theorem successful_calls_prepend_both_witness:
  "\<not> nothing_selected ready_state \<and> \<not> prompt_missing ready_state
   \<and> outcome (generateImageWithGemini host_with_hook (generate_params ready_state)
        (Inr image_response)) = Inr (lit ''data:image/png;base64,QUJD'')
   \<and> outcome (generateImageWithGemini host_with_hook (generate_params ready_state)
        (Inr other_image_response)) = Inr (lit ''data:image/png;base64,REVG'')
   \<and> generatedImages (run_events ready_state
        (handleGenerateImages host_with_hook ready_state (Inr image_response)
           (Inr other_image_response) True)) =
      [lit ''data:image/png;base64,QUJD'', lit ''data:image/png;base64,REVG'',
       lit ''data:image/png;base64,T0xE'']"
proof -
  have "generatedImages ready_state = [lit ''data:image/png;base64,T0xE'']"
    by (simp add: ready_state_def)
  then show ?thesis
    using successful_calls_prepend_both [OF ready_state_valid example_outcomes(1) example_outcomes(2),
        of ready_state True]
      ready_state_valid example_outcomes
    by simp
qed

text \<open>
  C4 (as amended). When no character image is selected and the background is not in use
  or has no payload, the handler does four things and nothing else: it sets loading to
  true, clears the error, sets the validation message, and sets loading to false. No
  request is sent, and afterwards the message is set, loading is off and the list of
  generated images is as it was.
\<close>

theorem empty_selection_rejected:
  assumes "\<forall>c \<in> set (s_characterImages st). \<not> selected c"
    and "\<not> bg_useBackground (s_backgroundImage st) \<or> \<not> truthy (bg_base64 (s_backgroundImage st))"
  shows "handleGenerateImages h st reply1 reply2 ord =
      [SetLoading True, SetError None, SetError (Some msg_select_image), SetLoading False]
    \<and> error (run_events st' (handleGenerateImages h st reply1 reply2 ord)) = Some msg_select_image
    \<and> \<not> loading (run_events st' (handleGenerateImages h st reply1 reply2 ord))
    \<and> generatedImages (run_events st' (handleGenerateImages h st reply1 reply2 ord)) =
        generatedImages st'"
  using handler_rejects_selection [OF nothing_selectedI [OF assms]]
  by (simp add: run_events_Cons)

text \<open>C4 (as amended) at the initial state, where nothing is uploaded.\<close>

theorem empty_selection_rejected_witness:
  "filter selected (s_characterImages initial_state) = []
   \<and> \<not> bg_useBackground (s_backgroundImage initial_state)
   \<and> handleGenerateImages host_with_hook initial_state (Inr image_response) (Inr image_response)
       False =
      [SetLoading True, SetError None, SetError (Some msg_select_image), SetLoading False]
   \<and> \<not> loading (run_events initial_state
        (handleGenerateImages host_with_hook initial_state (Inr image_response)
           (Inr image_response) False))"
  using empty_selection_rejected [OF initial_state_unselected, of host_with_hook "Inr image_response"
      "Inr image_response" False initial_state]
    initial_state_nothing
  by (simp add: run_events_Cons)

text \<open>
  C4 (as stated) fails: at the initial state, where nothing is selected and the background
  is not in use, the first thing the handler does is to set loading to true.
\<close>

theorem loading_set_true_before_validation:
  "filter selected (s_characterImages initial_state) = []
   \<and> \<not> bg_useBackground (s_backgroundImage initial_state)
   \<and> hd (handleGenerateImages host_with_hook initial_state (Inr image_response)
        (Inr image_response) False) = SetLoading True
   \<and> loading (apply_event initial_state
        (hd (handleGenerateImages host_with_hook initial_state (Inr image_response)
           (Inr image_response) False)))"
proof -
  have "hd (handleGenerateImages host_with_hook initial_state (Inr image_response)
        (Inr image_response) False) = SetLoading True"
    by (simp add: handleGenerateImages_def)
  then show ?thesis
    using initial_state_nothing by simp
qed

text \<open>
  C5 (as amended). Stripping twice gives the same as stripping once exactly when the
  result of the first stripping is not itself a string that starts with \<open>data:\<close> and
  holds a comma; and a string that does not start with \<open>data:\<close> passes through unchanged.
\<close>

theorem stripDataPrefix_twice:
  "(stripDataPrefix (stripDataPrefix x) = stripDataPrefix x \<longleftrightarrow>
      \<not> (startsWith (stripDataPrefix x) (lit ''data:'')
         \<and> indexOf (stripDataPrefix x) (lit '','') \<noteq> - 1))
   \<and> (\<not> startsWith x (lit ''data:'') \<longrightarrow> stripDataPrefix x = x)"
proof -
  have "stripDataPrefix (stripDataPrefix x) \<noteq> stripDataPrefix x"
    if "startsWith (stripDataPrefix x) (lit ''data:'')"
      and "indexOf (stripDataPrefix x) (lit '','') \<noteq> - 1"
    using stripDataPrefix_shorter [OF that] by auto
  moreover have "stripDataPrefix (stripDataPrefix x) = stripDataPrefix x"
    if "\<not> (startsWith (stripDataPrefix x) (lit ''data:'')
         \<and> indexOf (stripDataPrefix x) (lit '','') \<noteq> - 1)"
    using that by (rule stripDataPrefix_fixed)
  moreover have "stripDataPrefix x = x" if "\<not> startsWith x (lit ''data:'')"
    using that by (simp add: stripDataPrefix_fixed)
  ultimately show ?thesis by blast
qed

text \<open>C5 (as amended) at a data URI with a base64 payload, and at the payload alone.\<close>

theorem stripDataPrefix_twice_witness:
  "stripDataPrefix (stripDataPrefix (lit ''data:image/png;base64,iVBORw0KGgo='')) =
     stripDataPrefix (lit ''data:image/png;base64,iVBORw0KGgo='')
   \<and> stripDataPrefix (lit ''data:image/png;base64,iVBORw0KGgo='') = lit ''iVBORw0KGgo=''
   \<and> \<not> startsWith (lit ''iVBORw0KGgo='') (lit ''data:'')
   \<and> stripDataPrefix (lit ''iVBORw0KGgo='') = lit ''iVBORw0KGgo=''"
proof -
  have s: "stripDataPrefix (lit ''data:image/png;base64,iVBORw0KGgo='') = lit ''iVBORw0KGgo=''"
    by code_simp
  have n: "\<not> startsWith (lit ''iVBORw0KGgo='') (lit ''data:'')"
    by code_simp
  from n have "\<not> (startsWith (stripDataPrefix (lit ''data:image/png;base64,iVBORw0KGgo=''))
        (lit ''data:'')
      \<and> indexOf (stripDataPrefix (lit ''data:image/png;base64,iVBORw0KGgo='')) (lit '','') \<noteq> - 1)"
    by (simp only: s) simp
  with stripDataPrefix_twice [of "lit ''data:image/png;base64,iVBORw0KGgo=''"]
  have "stripDataPrefix (stripDataPrefix (lit ''data:image/png;base64,iVBORw0KGgo='')) =
     stripDataPrefix (lit ''data:image/png;base64,iVBORw0KGgo='')"
    by blast
  moreover from n stripDataPrefix_twice [of "lit ''iVBORw0KGgo=''"]
  have "stripDataPrefix (lit ''iVBORw0KGgo='') = lit ''iVBORw0KGgo=''"
    by blast
  ultimately show ?thesis using s n by simp
qed

text \<open>
  C5 (as stated) fails: \<open>data:,data:,x\<close> strips to \<open>data:,x\<close>, which strips again to
  \<open>x\<close>.
\<close>

theorem stripDataPrefix_not_idempotent:
  "stripDataPrefix (stripDataPrefix (lit ''data:,data:,x'')) \<noteq>
     stripDataPrefix (lit ''data:,data:,x'')"
  by code_simp

text \<open>
  C6. With a credential in the environment and a response from the model: when the first
  candidate's content has as its first part an inline image with MIME type \<open>m\<close> and
  payload \<open>d\<close>, the service returns \<open>data:m;base64,d\<close>; it fails with the no-image error
  exactly when the response has no such field; it fails in no other way; and the credential
  hook is not called (the no-image error goes through the \<open>catch\<close> block unchanged).
\<close>

theorem generateImageWithGemini_reads_first_inline_image:
  assumes "truthy (API_KEY h)"
  shows "(candidates r = Some (Candidate (Some (Content (Some (InlineData m d # ps)))) # cs) \<longrightarrow>
        outcome (generateImageWithGemini h params (Inr r)) =
          Inr (lit ''data:'' @ m @ lit '';base64,'' @ d))
    \<and> (outcome (generateImageWithGemini h params (Inr r)) = Inl (JsError msg_no_image_data)
        \<longleftrightarrow> \<not> (\<exists>m' d' cs' ps'. candidates r =
              Some (Candidate (Some (Content (Some (InlineData m' d' # ps')))) # cs')))
    \<and> (isl (outcome (generateImageWithGemini h params (Inr r))) \<longrightarrow>
        outcome (generateImageWithGemini h params (Inr r)) = Inl (JsError msg_no_image_data))
    \<and> settled (generateImageWithGemini h params (Inr r)) = []"
proof -
  have field: "generatedImagePart r = Some (m, d)"
    if "candidates r = Some (Candidate (Some (Content (Some (InlineData m d # ps)))) # cs)"
    using that generatedImagePart_Some [of r m d] by blast
  have absent: "generatedImagePart r = None \<longleftrightarrow>
        \<not> (\<exists>m' d' cs' ps'. candidates r =
              Some (Candidate (Some (Content (Some (InlineData m' d' # ps')))) # cs'))"
  proof -
    have "generatedImagePart r = None \<longleftrightarrow> \<not> (\<exists>m' d'. generatedImagePart r = Some (m', d'))"
      by (cases "generatedImagePart r") auto
    then show ?thesis
      by (simp only: generatedImagePart_Some)
  qed
  have read: "outcome (generateImageWithGemini h params (Inr r)) = read_response r"
    and quiet: "settled (generateImageWithGemini h params (Inr r)) = []"
    using assms by (simp_all add: generate_resolved)
  have present: "read_response r = Inr (lit ''data:'' @ m @ lit '';base64,'' @ d)"
    if "candidates r = Some (Candidate (Some (Content (Some (InlineData m d # ps)))) # cs)"
    using field [OF that] by (simp add: read_response_def data_uri_def)
  have no_image: "read_response r = Inl (JsError msg_no_image_data) \<longleftrightarrow>
      generatedImagePart r = None"
    by (auto simp: read_response_def split: option.splits prod.splits)
  have only: "read_response r = Inl (JsError msg_no_image_data)" if "isl (read_response r)"
    using that by (auto simp: read_response_def split: option.splits prod.splits)
  show ?thesis
    unfolding read quiet
  proof (intro conjI impI)
    assume "candidates r = Some (Candidate (Some (Content (Some (InlineData m d # ps)))) # cs)"
    then show "read_response r = Inr (lit ''data:'' @ m @ lit '';base64,'' @ d)"
      by (rule present)
  next
    show "read_response r = Inl (JsError msg_no_image_data) \<longleftrightarrow>
        \<not> (\<exists>m' d' cs' ps'. candidates r =
              Some (Candidate (Some (Content (Some (InlineData m' d' # ps')))) # cs'))"
      by (simp only: no_image absent)
  next
    assume "isl (read_response r)"
    then show "read_response r = Inl (JsError msg_no_image_data)"
      by (rule only)
  next
    show "([]::event list) = []" by simp
  qed
qed

text \<open>
  C6 at a response with two candidates, whose first candidate carries a JPEG image ahead
  of a text and a PNG image; at a response with one PNG image; at a response whose first
  part is a text although an image follows it; and at a response without candidates.
\<close>

theorem generateImageWithGemini_reads_first_inline_image_witness:
  "truthy (API_KEY host_without_hook)
   \<and> outcome (generateImageWithGemini host_without_hook one_character_params
        (Inr two_candidate_response)) = Inr (lit ''data:image/jpeg;base64,REVG'')
   \<and> outcome (generateImageWithGemini host_without_hook one_character_params
        (Inr image_response)) = Inr (lit ''data:image/png;base64,QUJD'')
   \<and> outcome (generateImageWithGemini host_without_hook one_character_params
        (Inr text_first_response)) = Inl (JsError msg_no_image_data)
   \<and> outcome (generateImageWithGemini host_without_hook one_character_params
        (Inr (Response None))) = Inl (JsError msg_no_image_data)"
proof -
  have two: "candidates two_candidate_response =
      Some (Candidate (Some (Content (Some (InlineData (lit ''image/jpeg'') (lit ''REVG'') #
          [Text (lit ''caption''), InlineData (lit ''image/png'') (lit ''QUJD'')])))) #
        [Candidate (Some (Content (Some [InlineData (lit ''image/png'') (lit ''QUJD'')])))])"
    by (simp add: two_candidate_response_def)
  have one: "candidates image_response =
      Some (Candidate (Some (Content (Some (InlineData (lit ''image/png'') (lit ''QUJD'') # [])))) # [])"
    by (simp add: image_response_def)
  have text_first: "\<not> (\<exists>m' d' cs' ps'. candidates text_first_response =
      Some (Candidate (Some (Content (Some (InlineData m' d' # ps')))) # cs'))"
    by (simp add: text_first_response_def)
  have none: "\<not> (\<exists>m' d' cs' ps'. candidates (Response None) =
      Some (Candidate (Some (Content (Some (InlineData m' d' # ps')))) # cs'))"
    by simp
  have a: "outcome (generateImageWithGemini host_without_hook one_character_params
        (Inr two_candidate_response)) =
      Inr (lit ''data:'' @ lit ''image/jpeg'' @ lit '';base64,'' @ lit ''REVG'')"
    using generateImageWithGemini_reads_first_inline_image [OF truthy_hosts(2),
        THEN conjunct1, rule_format, OF two] .
  have b: "outcome (generateImageWithGemini host_without_hook one_character_params
        (Inr image_response)) =
      Inr (lit ''data:'' @ lit ''image/png'' @ lit '';base64,'' @ lit ''QUJD'')"
    using generateImageWithGemini_reads_first_inline_image [OF truthy_hosts(2),
        THEN conjunct1, rule_format, OF one] .
  have c: "outcome (generateImageWithGemini host_without_hook one_character_params
        (Inr text_first_response)) = Inl (JsError msg_no_image_data)"
    using generateImageWithGemini_reads_first_inline_image [OF truthy_hosts(2),
        THEN conjunct2, THEN conjunct1, THEN iffD2, OF text_first] .
  have d: "outcome (generateImageWithGemini host_without_hook one_character_params
        (Inr (Response None))) = Inl (JsError msg_no_image_data)"
    using generateImageWithGemini_reads_first_inline_image [OF truthy_hosts(2),
        THEN conjunct2, THEN conjunct1, THEN iffD2, OF none] .
  have "lit ''data:'' @ lit ''image/jpeg'' @ lit '';base64,'' @ lit ''REVG'' =
      lit ''data:image/jpeg;base64,REVG''"
    and "lit ''data:'' @ lit ''image/png'' @ lit '';base64,'' @ lit ''QUJD'' =
      lit ''data:image/png;base64,QUJD''"
    by (simp_all add: lit_def)
  with a b c d show ?thesis
    by (simp only: truthy_hosts simp_thms)
qed

text \<open>
  C7. When the model call fails with an \<open>Error\<close> whose message contains
  \<open>RESOURCE_EXHAUSTED\<close>, the service raises the quota message, and the credential hook is
  called exactly once when it is present and callable (and not at all otherwise). When
  that call is the first of a generate action to settle, the error shown to the user is
  the quota message behind the prefix of the handler.
\<close>

theorem quota_failure_raises_quota_message:
  assumes "js_includes m RESOURCE_EXHAUSTED" and "truthy (API_KEY h)"
  shows "outcome (generateImageWithGemini h params (Inl (JsError m))) =
      Inl (JsError (if can_select_key h then msg_quota_reselect else msg_quota_plain))
    \<and> count_list (issued (generateImageWithGemini h params (Inl (JsError m))) @
         settled (generateImageWithGemini h params (Inl (JsError m)))) OpenSelectKey =
       (if can_select_key h then 1 else 0)
    \<and> (\<not> nothing_selected st \<and> \<not> prompt_missing st \<longrightarrow>
        error (run_events st' (handleGenerateImages h st (Inl (JsError m)) reply2 False)) =
          Some (msg_generate_failed @
            (if can_select_key h then msg_quota_reselect else msg_quota_plain)))"
proof -
  have "error (run_events st' (handleGenerateImages h st (Inl (JsError m)) reply2 False)) =
      Some (msg_generate_failed @
        (if can_select_key h then msg_quota_reselect else msg_quota_plain))"
    if "\<not> nothing_selected st" and "\<not> prompt_missing st"
    using assms
    by (simp add: handler_calls [OF that] run_handler_prefix await_all_def Let_def
        generate_rejected classify_quota error_includes_def run_events_append run_on_rejected
        run_events_Cons message_of_def template_def)
  then show ?thesis
    using assms by (simp add: generate_rejected classify_quota error_includes_def)
qed

text \<open>C7 at a quota failure, with the hook present.\<close>

theorem quota_failure_raises_quota_message_witness:
  "js_includes (lit ''429 RESOURCE_EXHAUSTED: quota'') RESOURCE_EXHAUSTED
   \<and> truthy (API_KEY host_with_hook)
   \<and> outcome (generateImageWithGemini host_with_hook one_character_params
        (Inl (JsError (lit ''429 RESOURCE_EXHAUSTED: quota'')))) = Inl (JsError msg_quota_reselect)
   \<and> count_list
        (issued (generateImageWithGemini host_with_hook one_character_params
           (Inl (JsError (lit ''429 RESOURCE_EXHAUSTED: quota'')))) @
         settled (generateImageWithGemini host_with_hook one_character_params
           (Inl (JsError (lit ''429 RESOURCE_EXHAUSTED: quota''))))) OpenSelectKey = 1
   \<and> \<not> nothing_selected ready_state \<and> \<not> prompt_missing ready_state
   \<and> error (run_events ready_state
        (handleGenerateImages host_with_hook ready_state
           (Inl (JsError (lit ''429 RESOURCE_EXHAUSTED: quota''))) (Inr image_response) False)) =
      Some (msg_generate_failed @ msg_quota_reselect)"
  using quota_failure_raises_quota_message [OF includes_quota_example truthy_hosts(1),
      of one_character_params ready_state ready_state "Inr image_response"]
    includes_quota_example ready_state_valid
  by simp

text \<open>
  C8. A failure that the two substring tests do not catch, which every value that is not
  an \<open>Error\<close> is, is thrown again as it is, and the credential hook is not called.
\<close>

theorem unclassified_failure_rethrown:
  assumes "\<not> error_includes e RESOURCE_EXHAUSTED" and "\<not> error_includes e ENTITY_NOT_FOUND"
    and "truthy (API_KEY h)"
  shows "classify h e = ([], e)
    \<and> outcome (generateImageWithGemini h params (Inl e)) = Inl e
    \<and> settled (generateImageWithGemini h params (Inl e)) = []
    \<and> count_list (issued (generateImageWithGemini h params (Inl e)) @
         settled (generateImageWithGemini h params (Inl e))) OpenSelectKey = 0"
  using assms by (simp add: generate_rejected classify_other)

text \<open>
  C8 at a network error, and at a value that is not an \<open>Error\<close> although its message
  property reads \<open>RESOURCE_EXHAUSTED\<close>.
\<close>

theorem unclassified_failure_rethrown_witness:
  "\<not> error_includes (JsError (lit ''fetch failed'')) RESOURCE_EXHAUSTED
   \<and> \<not> error_includes (JsError (lit ''fetch failed'')) ENTITY_NOT_FOUND
   \<and> \<not> error_includes (JsNonError (Some RESOURCE_EXHAUSTED)) RESOURCE_EXHAUSTED
   \<and> \<not> error_includes (JsNonError (Some RESOURCE_EXHAUSTED)) ENTITY_NOT_FOUND
   \<and> truthy (API_KEY host_with_hook)
   \<and> outcome (generateImageWithGemini host_with_hook one_character_params
        (Inl (JsError (lit ''fetch failed'')))) = Inl (JsError (lit ''fetch failed''))
   \<and> settled (generateImageWithGemini host_with_hook one_character_params
        (Inl (JsError (lit ''fetch failed'')))) = []
   \<and> outcome (generateImageWithGemini host_with_hook one_character_params
        (Inl (JsNonError (Some RESOURCE_EXHAUSTED)))) = Inl (JsNonError (Some RESOURCE_EXHAUSTED))
   \<and> settled (generateImageWithGemini host_with_hook one_character_params
        (Inl (JsNonError (Some RESOURCE_EXHAUSTED)))) = []"
proof -
  have n1: "\<not> error_includes (JsNonError (Some RESOURCE_EXHAUSTED)) RESOURCE_EXHAUSTED"
    and n2: "\<not> error_includes (JsNonError (Some RESOURCE_EXHAUSTED)) ENTITY_NOT_FOUND"
    by simp_all
  show ?thesis
    using unclassified_failure_rethrown [OF network_error_unclassified truthy_hosts(1), of one_character_params]
      unclassified_failure_rethrown [OF n1 n2 truthy_hosts(1), of one_character_params]
      network_error_unclassified
    by simp
qed

text \<open>
  C9 (as amended). When the browser accepts the write, a save appends one record, holding
  the URL and the clock reading taken for the timestamp, to the end of the list the
  component holds, and the slot of the storage then holds that extended list, all other
  slots being as before. When the browser refuses the write, the storage is as before and
  the failure alert is shown. Saving one URL twice gives two records, both with that URL:
  nothing is compared by URL.
\<close>

theorem save_appends_record:
  "(\<not> refused \<longrightarrow>
      saved_after (handleSaveImage saved storage refused now_id now_ts imageUrl index) =
        saved @ [newImage now_id now_ts imageUrl index]
    \<and> storage_after (handleSaveImage saved storage refused now_id now_ts imageUrl index)
        LOCAL_STORAGE_KEY = Some (saved @ [newImage now_id now_ts imageUrl index])
    \<and> (k \<noteq> LOCAL_STORAGE_KEY \<longrightarrow>
        storage_after (handleSaveImage saved storage refused now_id now_ts imageUrl index) k =
          storage k)
    \<and> alert (handleSaveImage saved storage refused now_id now_ts imageUrl index) = alert_saved)
   \<and> (refused \<longrightarrow>
      storage_after (handleSaveImage saved storage refused now_id now_ts imageUrl index) = storage
    \<and> alert (handleSaveImage saved storage refused now_id now_ts imageUrl index) =
        alert_save_failed)
   \<and> url (newImage now_id now_ts imageUrl index) = imageUrl
   \<and> timestamp (newImage now_id now_ts imageUrl index) = now_ts
   \<and> saved_after
        (handleSaveImage
          (saved_after (handleSaveImage saved storage False now_id now_ts imageUrl index))
          (storage_after (handleSaveImage saved storage False now_id now_ts imageUrl index))
          False now_id' now_ts' imageUrl index') =
      saved @ [newImage now_id now_ts imageUrl index, newImage now_id' now_ts' imageUrl index']
   \<and> storage_after
        (handleSaveImage
          (saved_after (handleSaveImage saved storage False now_id now_ts imageUrl index))
          (storage_after (handleSaveImage saved storage False now_id now_ts imageUrl index))
          False now_id' now_ts' imageUrl index') LOCAL_STORAGE_KEY =
      Some (saved @
        [newImage now_id now_ts imageUrl index, newImage now_id' now_ts' imageUrl index'])
   \<and> url (newImage now_id' now_ts' imageUrl index') = imageUrl"
proof -
  have "url (newImage now_id now_ts imageUrl index) = imageUrl"
    "timestamp (newImage now_id now_ts imageUrl index) = now_ts"
    "url (newImage now_id' now_ts' imageUrl index') = imageUrl"
    by (simp_all add: newImage_def)
  then show ?thesis
    by (cases refused) (simp_all only: save_stored save_refused, simp_all)
qed

text \<open>
  C9 (as amended) at a first save into an empty collection, accepted and refused, and at
  a second save of the same URL.
\<close>

theorem save_appends_record_witness:
  "saved_after (handleSaveImage [] Map.empty False 1700000000000 1700000000001
      (lit ''data:image/png;base64,QUJD'') 0) =
     [\<lparr>img_id = lit ''1700000000000-0'', url = lit ''data:image/png;base64,QUJD'',
       timestamp = 1700000000001\<rparr>]
   \<and> storage_after (handleSaveImage [] Map.empty False 1700000000000 1700000000001
      (lit ''data:image/png;base64,QUJD'') 0) LOCAL_STORAGE_KEY =
     Some [\<lparr>img_id = lit ''1700000000000-0'', url = lit ''data:image/png;base64,QUJD'',
       timestamp = 1700000000001\<rparr>]
   \<and> storage_after (handleSaveImage [] Map.empty True 1700000000000 1700000000001
      (lit ''data:image/png;base64,QUJD'') 0) = Map.empty
   \<and> length (saved_after
        (handleSaveImage
          (saved_after (handleSaveImage [] Map.empty False 1700000000000 1700000000001
             (lit ''data:image/png;base64,QUJD'') 0))
          (storage_after (handleSaveImage [] Map.empty False 1700000000000 1700000000001
             (lit ''data:image/png;base64,QUJD'') 0))
          False 1700000004000 1700000004001 (lit ''data:image/png;base64,QUJD'') 0)) = 2"
proof -
  have n: "newImage 1700000000000 1700000000001 (lit ''data:image/png;base64,QUJD'') 0 =
      \<lparr>img_id = lit ''1700000000000-0'', url = lit ''data:image/png;base64,QUJD'',
       timestamp = 1700000000001\<rparr>"
    by (simp add: newImage_def decimal_examples) (simp add: lit_def)
  show ?thesis
    using save_appends_record [of False "[]" Map.empty 1700000000000 1700000000001
        "lit ''data:image/png;base64,QUJD''" 0 LOCAL_STORAGE_KEY 1700000004000 1700000004001 0]
      save_appends_record [of True "[]" Map.empty 1700000000000 1700000000001
        "lit ''data:image/png;base64,QUJD''" 0 LOCAL_STORAGE_KEY 1700000004000 1700000004001 0]
    by (simp add: n)
qed

text \<open>
  C9 (as stated) fails: a save that the browser refuses leaves the persisted collection
  without the record, while the failure alert is shown.
\<close>

theorem save_refused_not_persisted:
  "storage_after (handleSaveImage [] Map.empty True 1700000000000 1700000000001
      (lit ''data:image/png;base64,QUJD'') 0) LOCAL_STORAGE_KEY = None
   \<and> alert (handleSaveImage [] Map.empty True 1700000000000 1700000000001
      (lit ''data:image/png;base64,QUJD'') 0) = alert_save_failed"
  by (simp add: save_refused)

text \<open>
  C10. When the message of the \<open>Error\<close> contains both substrings, the quota test comes
  first: the quota message is raised, not the invalid-credential one.
\<close>

theorem quota_check_precedes_entity_check:
  assumes "js_includes m RESOURCE_EXHAUSTED" and "js_includes m ENTITY_NOT_FOUND"
    and "truthy (API_KEY h)"
  shows "outcome (generateImageWithGemini h params (Inl (JsError m))) =
      Inl (JsError (if can_select_key h then msg_quota_reselect else msg_quota_plain))
    \<and> outcome (generateImageWithGemini h params (Inl (JsError m))) \<noteq>
      Inl (JsError msg_invalid_key_reselect)
    \<and> outcome (generateImageWithGemini h params (Inl (JsError m))) \<noteq>
      Inl (JsError msg_invalid_key_plain)"
  using assms by (simp add: generate_rejected classify_quota error_includes_def quota_ne_invalid)

text \<open>C10 at a message that holds both substrings, without a hook.\<close>

theorem quota_check_precedes_entity_check_witness:
  "js_includes (lit ''RESOURCE_EXHAUSTED Requested entity was not found.'') RESOURCE_EXHAUSTED
   \<and> js_includes (lit ''RESOURCE_EXHAUSTED Requested entity was not found.'') ENTITY_NOT_FOUND
   \<and> truthy (API_KEY host_without_hook)
   \<and> outcome (generateImageWithGemini host_without_hook one_character_params
        (Inl (JsError (lit ''RESOURCE_EXHAUSTED Requested entity was not found.'')))) =
      Inl (JsError msg_quota_plain)"
  using quota_check_precedes_entity_check [OF includes_both_example truthy_hosts(2), of one_character_params]
    includes_both_example
  by simp

end
